theory Spec2Isabelle
  imports Complex_Main "HOL-Library.Word"
begin

unbundle bit_operations_syntax

section \<open>Stripe geometry\<close>

text \<open>
  \<^verbatim>\<open>const MAX_HWM = 0x800000;\<close>, the largest buffer a Node readable stream hands
  out in one read.
\<close>

definition MAX_HWM :: nat where
  "MAX_HWM = 8388608"

text \<open>
  \<^verbatim>\<open>safeStripeSize(k, m, hint)\<close> of \<^verbatim>\<open>lib/dencode_context.js\<close>. The arguments are
  non-negative integers, so \<^verbatim>\<open>Math.ceil(hint / 8)\<close> is \<open>(hint + 7) div 8\<close> and
  \<^verbatim>\<open>Math.floor(a / b)\<close> is \<open>a div b\<close>; all values stay far below \<open>2 ^ 53\<close>, where
  the floating-point quotient has the same floor as the exact one. JavaScript
  divides by zero to \<^verbatim>\<open>Infinity\<close>, which \<^verbatim>\<open>Math.min\<close> discards: that is the first
  branch.
\<close>

definition safeStripeSize :: "nat \<Rightarrow> nat \<Rightarrow> nat \<Rightarrow> nat" where
  "safeStripeSize k m hint =
     (let alignedHint = ((hint + 7) div 8) * 8;
          largest = max k m
      in if largest = 0 then alignedHint
         else let maximum = MAX_HWM div largest;
                  maximumAligned = (maximum div 8) * 8
              in min alignedHint maximumAligned)"

text \<open>
  The same size in the words of the specification: the hint rounded up to the
  next multiple of 8, capped by the largest multiple of 8 that keeps
  \<open>max k m * S\<close> under the buffering ceiling, with real division, floor and
  ceiling.
\<close>

definition safeStripeSize_spec :: "nat \<Rightarrow> nat \<Rightarrow> nat \<Rightarrow> int" where
  "safeStripeSize_spec k m hint =
     min (\<lceil>real hint / 8\<rceil> * 8)
         (\<lfloor>real_of_int \<lfloor>real MAX_HWM / real (max k m)\<rfloor> / 8\<rfloor> * 8)"


section \<open>Role bitfields\<close>

text \<open>
  The bitfields are JavaScript numbers used with the 32-bit operators
  \<^verbatim>\<open>|\<close>, \<^verbatim>\<open>&\<close>, \<^verbatim>\<open>~\<close> and \<^verbatim>\<open><<\<close>: 32-bit words here. \<^verbatim>\<open>1 << i\<close> takes the shift count
  modulo 32.
\<close>

type_synonym mask = "32 word"

text \<open>A stream object is named by a handle; \<open>None\<close> is \<^verbatim>\<open>null\<close> or \<^verbatim>\<open>undefined\<close>.\<close>

type_synonym stream = nat

definition lane_bit :: "nat \<Rightarrow> mask" where
  "lane_bit i = push_bit (i mod 32) 1"


text \<open>\<^verbatim>\<open>streams[i]\<close>: reading past the end of an array gives \<^verbatim>\<open>undefined\<close>.\<close>

definition lane :: "stream option list \<Rightarrow> nat \<Rightarrow> stream option" where
  "lane xs i = (if i < length xs then xs ! i else None)"


text \<open>
  \<^verbatim>\<open>getPartRoles(dataStreams, parityStreams)\<close> of \<^verbatim>\<open>lib/decode.js\<close>: the two loops,
  each with its \<^verbatim>\<open>break\<close>, and the result \<open>(sources, targets, available)\<close>.
\<close>

function decode_dataLoop ::
  "stream option list \<Rightarrow> nat \<Rightarrow> mask \<times> mask \<times> nat \<Rightarrow> mask \<times> mask \<times> nat" where
  "decode_dataLoop ds i (src, tgt, av) =
     (if i < length ds then
        (if lane ds i \<noteq> None then
           (if av + 1 = length ds then (src OR lane_bit i, tgt, av + 1)
            else decode_dataLoop ds (i + 1) (src OR lane_bit i, tgt, av + 1))
         else decode_dataLoop ds (i + 1) (src, tgt OR lane_bit i, av))
      else (src, tgt, av))"
  by pat_completeness auto
termination
  by (relation "measure (\<lambda>(ds, i, _). length ds - i)") auto

function decode_parityLoop ::
  "stream option list \<Rightarrow> nat \<Rightarrow> nat \<Rightarrow> mask \<times> nat \<Rightarrow> mask \<times> nat" where
  "decode_parityLoop ps k i (src, av) =
     (if i < length ps then
        (if lane ps i \<noteq> None then
           (if av + 1 = k then (src OR lane_bit (k + i), av + 1)
            else decode_parityLoop ps k (i + 1) (src OR lane_bit (k + i), av + 1))
         else decode_parityLoop ps k (i + 1) (src, av))
      else (src, av))"
  by pat_completeness auto
termination
  by (relation "measure (\<lambda>(ps, k, i, _). length ps - i)") auto

declare decode_dataLoop.simps [simp del] decode_parityLoop.simps [simp del]

definition decode_getPartRoles ::
  "stream option list \<Rightarrow> stream option list \<Rightarrow> mask \<times> mask \<times> nat" where
  "decode_getPartRoles dataStreams parityStreams =
     (let k = length dataStreams;
          (src, tgt, av) = decode_dataLoop dataStreams 0 (0, 0, 0)
      in if av < k
         then (let (src', av') = decode_parityLoop parityStreams k 0 (src, av)
               in (src', tgt, av'))
         else (src, tgt, av))"

text \<open>\<^verbatim>\<open>getPartRoles(k, m, istreams, ostreams)\<close> of \<^verbatim>\<open>lib/repair.js\<close>.\<close>

function repair_sourceLoop ::
  "nat \<Rightarrow> nat \<Rightarrow> stream option list \<Rightarrow> nat \<Rightarrow> mask \<times> nat \<Rightarrow> mask \<times> nat" where
  "repair_sourceLoop k m istrs i (src, av) =
     (if i < k + m then
        (if lane istrs i \<noteq> None then
           (if av = k then (src, av)
            else repair_sourceLoop k m istrs (i + 1) (src OR lane_bit i, av + 1))
         else repair_sourceLoop k m istrs (i + 1) (src, av))
      else (src, av))"
  by pat_completeness auto
termination
  by (relation "measure (\<lambda>(k, m, _, i, _). k + m - i)") auto

function repair_targetLoop ::
  "nat \<Rightarrow> nat \<Rightarrow> stream option list \<Rightarrow> nat \<Rightarrow> mask \<Rightarrow> mask" where
  "repair_targetLoop k m ostrs i tgt =
     (if i < k + m then
        (if lane ostrs i \<noteq> None
         then repair_targetLoop k m ostrs (i + 1) (tgt OR lane_bit i)
         else repair_targetLoop k m ostrs (i + 1) tgt)
      else tgt)"
  by pat_completeness auto
termination
  by (relation "measure (\<lambda>(k, m, _, i, _). k + m - i)") auto

declare repair_sourceLoop.simps [simp del] repair_targetLoop.simps [simp del]

definition repair_getPartRoles ::
  "nat \<Rightarrow> nat \<Rightarrow> stream option list \<Rightarrow> stream option list \<Rightarrow> mask \<times> mask \<times> nat" where
  "repair_getPartRoles k m istrs ostrs =
     (let (src, av) = repair_sourceLoop k m istrs 0 (0, 0);
          tgt = repair_targetLoop k m ostrs 0 0
      in (src, tgt, av))"




section \<open>The shared operation context\<close>

type_synonym byte = "8 word"
type_synonym bytes = "byte list"

text \<open>A JavaScript \<^verbatim>\<open>Error\<close> object with its message; as an object it is truthy.\<close>

datatype js_error = Error string

text \<open>What a handler throws: a failed \<^verbatim>\<open>assert\<close>, or a method call on \<^verbatim>\<open>null\<close>.\<close>

datatype exn = AssertionError | TypeError

text \<open>
  The calls the library makes on its collaborators, in the order it makes them:
  events emitted on streams, writes, reads (lane index and requested length),
  pausing and resuming of inputs, and calls of the coding primitive (or of the
  deferred no-op that replaces it when there is nothing to compute).
\<close>

datatype call =
    EmitError stream js_error
  | EmitEnd stream
  | EmitReadable stream
  | Write stream bytes
  | Read nat int
  | Pause stream
  | Resume stream
  | Primitive mask mask bytes bytes
  | Bypass

text \<open>
  The fields of \<^verbatim>\<open>DencodeContext\<close> (\<^verbatim>\<open>lib/dencode_context.js\<close>). \<open>nStripe\<close> is
  \<open>None\<close> when \<^verbatim>\<open>Math.ceil(size / (k * stripeSize))\<close> divides by zero and is
  \<^verbatim>\<open>Infinity\<close> or \<^verbatim>\<open>NaN\<close>, which no stripe count ever equals. \<open>trace\<close> records the
  calls made so far; \<open>junk\<close> is the content of the uninitialised memory that
  \<^verbatim>\<open>Buffer.allocUnsafe\<close> hands out.
\<close>

record DencodeContext =
  ctx_k :: nat
  ctx_m :: nat
  stripeSize :: nat
  ctx_size :: nat
  data_size :: nat
  parity_size :: nat
  istreams :: "stream option list"
  filteredIstreams :: "stream list"
  ostreams :: "stream option list"
  filteredOstreams :: "stream list"
  sources :: mask
  targets :: mask
  inFlight :: bool
  processedStripe :: nat
  nStripe :: "nat option"
  waiting :: mask
  dataBuffer :: bytes
  parityBuffer :: bytes
  inputError :: "js_error option"
  trace :: "call list"
  junk :: "nat \<Rightarrow> byte"

text \<open>
  Modelled from the spec: the limits \<^verbatim>\<open>ReedSolomon.MAX_K\<close> and \<^verbatim>\<open>ReedSolomon.MAX_M\<close> of
  the external coding library, which the repository does not contain (the spec's
  \<open>K_MAX\<close> and \<open>M_MAX\<close>); the test suite names (24, 6) as the largest supported code.
\<close>

definition MAX_K :: nat where
  "MAX_K = 24"

definition MAX_M :: nat where
  "MAX_M = 6"


text \<open>\<^verbatim>\<open>getECContext\<close>: only its assertions matter here.\<close>

definition getECContext :: "nat \<Rightarrow> nat \<Rightarrow> exn + unit" where
  "getECContext k m =
     (if 0 < k \<and> k \<le> MAX_K \<and> 0 < m \<and> m \<le> MAX_M then Inr () else Inl AssertionError)"

definition allocUnsafe :: "(nat \<Rightarrow> byte) \<Rightarrow> nat \<Rightarrow> bytes" where
  "allocUnsafe j n = map j [0..<n]"

definition filter_streams :: "stream option list \<Rightarrow> stream list" where
  "filter_streams xs = concat (map (\<lambda>s. case s of None \<Rightarrow> [] | Some h \<Rightarrow> [h]) xs)"

definition newStripe :: "DencodeContext \<Rightarrow> DencodeContext" where
  "newStripe c = c\<lparr>waiting := sources c,
                    dataBuffer := allocUnsafe (junk c) (data_size c),
                    parityBuffer := allocUnsafe (junk c) (parity_size c)\<rparr>"

text \<open>
  The constructor: \<open>init_DencodeContext\<close> is its body once the stripe size is known,
  \<open>new_DencodeContext\<close> the whole of it, with the assertions of \<^verbatim>\<open>getECContext\<close>.
\<close>

definition init_DencodeContext ::
  "nat \<Rightarrow> nat \<Rightarrow> stream option list \<Rightarrow> stream option list \<Rightarrow> nat \<Rightarrow> mask \<Rightarrow> mask \<Rightarrow> nat
    \<Rightarrow> (nat \<Rightarrow> byte) \<Rightarrow> DencodeContext" where
  "init_DencodeContext k m inputStreams outputStreams sz src tgt S j =
     newStripe
       \<lparr>ctx_k = k, ctx_m = m, stripeSize = S, ctx_size = sz,
        data_size = S * k, parity_size = S * m,
        istreams = inputStreams, filteredIstreams = filter_streams inputStreams,
        ostreams = outputStreams, filteredOstreams = filter_streams outputStreams,
        sources = src, targets = tgt, inFlight = False, processedStripe = 0,
        nStripe = (if k * S = 0 then None else Some ((sz + k * S - 1) div (k * S))),
        waiting = 0, dataBuffer = [], parityBuffer = [],
        inputError = None, trace = [], junk = j\<rparr>"

definition new_DencodeContext ::
  "nat \<Rightarrow> nat \<Rightarrow> stream option list \<Rightarrow> stream option list \<Rightarrow> nat \<Rightarrow> mask \<Rightarrow> mask \<Rightarrow> nat
    \<Rightarrow> (nat \<Rightarrow> byte) \<Rightarrow> exn + DencodeContext" where
  "new_DencodeContext k m inputStreams outputStreams sz src tgt stripeSizeHint j =
     (case getECContext k m of
        Inl e \<Rightarrow> Inl e
      | Inr _ \<Rightarrow>
          Inr (init_DencodeContext k m inputStreams outputStreams sz src tgt
                 (safeStripeSize k m stripeSizeHint) j))"

text \<open>\<^verbatim>\<open>error(err)\<close>.\<close>

definition error :: "js_error \<Rightarrow> DencodeContext \<Rightarrow> DencodeContext" where
  "error err c =
     (if inputError c = None
      then c\<lparr>inputError := Some err,
             trace := trace c @ map (\<lambda>s. EmitError s err) (filteredOstreams c)\<rparr>
      else c)"

text \<open>\<^verbatim>\<open>ref()\<close>, with its assertion.\<close>

definition ref :: "DencodeContext \<Rightarrow> exn + DencodeContext" where
  "ref c = (if waiting c = 0 then Inr (c\<lparr>inFlight := True\<rparr>) else Inl AssertionError)"

text \<open>\<^verbatim>\<open>unref()\<close>.\<close>

definition unref :: "DencodeContext \<Rightarrow> DencodeContext" where
  "unref c =
     (let c1 = c\<lparr>inFlight := False, processedStripe := processedStripe c + 1\<rparr>
      in if Some (processedStripe c1) = nStripe c1
         then c1\<lparr>trace := trace c1 @ map EmitEnd (filteredOstreams c1)\<rparr>
         else (let c2 = newStripe c1
               in c2\<lparr>trace := trace c2 @ map EmitReadable (filteredIstreams c2)\<rparr>))"

definition wait :: "DencodeContext \<Rightarrow> bool" where
  "wait c = inFlight c"

definition addedToStripe :: "mask \<Rightarrow> DencodeContext \<Rightarrow> DencodeContext" where
  "addedToStripe src c = c\<lparr>waiting := waiting c AND NOT src\<rparr>"

definition readyForEncoding :: "DencodeContext \<Rightarrow> bool" where
  "readyForEncoding c = (waiting c = 0)"

text \<open>
  The method \<^verbatim>\<open>encode(dispatcher)\<close>: it asserts that a stripe is in flight and hands
  the buffers to the coding primitive, or defers a call of the dispatcher when
  there is no target.
\<close>

definition ctx_encode :: "DencodeContext \<Rightarrow> exn + DencodeContext" where
  "ctx_encode c =
     (if \<not> inFlight c then Inl AssertionError
      else if targets c = 0 then Inr (c\<lparr>trace := trace c @ [Bypass]\<rparr>)
      else Inr (c\<lparr>trace := trace c @
             [Primitive (sources c) (targets c) (dataBuffer c) (parityBuffer c)]\<rparr>))"


section \<open>Streams and buffers\<close>

text \<open>
  Modelled from the spec: a readable stream of Node.js, which the repository
  uses and does not contain (the spec's \<open>ByteSource\<close>: read up to \<open>n\<close> bytes, fewer
  only at the end). A stream is the bytes it has buffered and whether it has
  ended; \<^verbatim>\<open>read(n)\<close> returns \<^verbatim>\<open>null\<close> until \<open>n\<close> bytes are buffered or the stream
  has ended with some bytes left.
\<close>

type_synonym rstream = "bytes \<times> bool"

definition stream_read :: "int \<Rightarrow> rstream \<Rightarrow> bytes option \<times> rstream" where
  "stream_read n st = (case st of (buf, ended) \<Rightarrow>
     if n \<le> 0 \<or> buf = [] then (None, st)
     else if n \<le> int (length buf) then (Some (take (nat n) buf), (drop (nat n) buf, ended))
     else if ended then (Some buf, ([], ended))
     else (None, st))"

text \<open>
  \<^verbatim>\<open>source.copy(target, targetStart)\<close>: copies what fits and returns the number of
  bytes copied, with the new content of the target.
\<close>

definition buf_copy :: "bytes \<Rightarrow> bytes \<Rightarrow> nat \<Rightarrow> bytes \<times> nat" where
  "buf_copy src tgt off =
     (let n = min (length src) (length tgt - off)
      in (take off tgt @ take n src @ drop (off + n) tgt, n))"

text \<open>\<^verbatim>\<open>buf.fill(0, offset)\<close>.\<close>

definition buf_fill0 :: "bytes \<Rightarrow> nat \<Rightarrow> bytes" where
  "buf_fill0 buf off = take off buf @ replicate (length buf - off) 0"

text \<open>
  \<^verbatim>\<open>buf.slice(start, end)\<close>: a negative index counts from the end, and both are
  clamped to the buffer.
\<close>

definition clamp_index :: "int \<Rightarrow> nat \<Rightarrow> nat" where
  "clamp_index i len = (if i < 0 then nat (max 0 (int len + i)) else min (nat i) len)"

definition buf_slice :: "bytes \<Rightarrow> int \<Rightarrow> int \<Rightarrow> bytes" where
  "buf_slice b s e =
     (let s' = clamp_index s (length b); e' = clamp_index e (length b)
      in take (e' - s') (drop s' b))"

text \<open>
  The loop over the output lanes that all three dispatch steps share:
  \<^verbatim>\<open>streams.forEach((s, i) => ... s.write(payload, null, callback) ...)\<close>. \<open>sel\<close> tells
  which lanes are written, \<open>oks\<close> lists what the successive calls of \<^verbatim>\<open>write\<close>
  return (\<^verbatim>\<open>true\<close> once the list is exhausted). The result is the writes made and
  the value that the counter \<^verbatim>\<open>nPending\<close> has after the loop: one callback to
  come for a write that returned \<^verbatim>\<open>true\<close>, two (the callback and \<^verbatim>\<open>'drain'\<close>) for one
  that returned \<^verbatim>\<open>false\<close>.
\<close>

fun write_lanes ::
  "(nat \<Rightarrow> bool) \<Rightarrow> (nat \<Rightarrow> bytes) \<Rightarrow> stream option list \<Rightarrow> nat \<Rightarrow> bool list
    \<Rightarrow> exn + (call list \<times> nat)" where
  "write_lanes sel pay [] i oks = Inr ([], 0)"
| "write_lanes sel pay (s # ss) i oks =
     (if \<not> sel i then write_lanes sel pay ss (i + 1) oks
      else case s of
        None \<Rightarrow> Inl TypeError
      | Some h \<Rightarrow>
          (case write_lanes sel pay ss (i + 1) (tl oks) of
             Inl e \<Rightarrow> Inl e
           | Inr (ws, n) \<Rightarrow>
               Inr (Write h (pay i) # ws, n + (if oks \<noteq> [] \<and> \<not> hd oks then 2 else 1))))"

declare write_lanes.simps [simp del]

text \<open>The slice of the stripe that belongs to lane \<open>i\<close>.\<close>

definition lane_slice :: "DencodeContext \<Rightarrow> nat \<Rightarrow> bytes" where
  "lane_slice c i =
     (let buffer = (if i < ctx_k c then dataBuffer c else parityBuffer c);
          stripeId = (if i < ctx_k c then i else i - ctx_k c);
          start = stripeId * stripeSize c;
          stop = (stripeId + 1) * stripeSize c
      in buf_slice buffer (int start) (int stop))"


section \<open>The decode driver\<close>

text \<open>
  \<^verbatim>\<open>fillStripeBuffers\<close> (\<^verbatim>\<open>lib/decode.js\<close>). The stream is passed in and returned as
  the read leaves it; the flag tells whether the lane was filled.
\<close>

definition fillStripeBuffers ::
  "DencodeContext \<Rightarrow> nat \<Rightarrow> rstream \<Rightarrow> exn + (DencodeContext \<times> rstream \<times> bool)" where
  "fillStripeBuffers c istreamId inp =
     (let sz = stripeSize c
      in if lane (istreams c) istreamId = None then Inl TypeError
         else
           (let (rd, inp') = stream_read (int sz) inp;
                c1 = c\<lparr>trace := trace c @ [Read istreamId (int sz)]\<rparr>
            in case rd of
                 None \<Rightarrow> Inr (c1, inp', False)
               | Some bs \<Rightarrow>
                   if istreamId < ctx_k c1
                   then (let (buf, copied) = buf_copy bs (dataBuffer c1) (istreamId * sz)
                         in if copied = length bs
                            then Inr (c1\<lparr>dataBuffer := buf\<rparr>, inp', True)
                            else Inl AssertionError)
                   else (let (buf, copied) =
                               buf_copy bs (parityBuffer c1) ((istreamId - ctx_k c1) * sz)
                         in if copied = length bs
                            then Inr (c1\<lparr>parityBuffer := buf\<rparr>, inp', True)
                            else Inl AssertionError)))"

text \<open>
  \<^verbatim>\<open>decodeBufferStep\<close>, used by decode and repair alike. Its \<^verbatim>\<open>nextStep\<close> is
  \<^verbatim>\<open>decodeStep\<close> or \<^verbatim>\<open>repairStep\<close>, both of which call the context's \<^verbatim>\<open>encode\<close>; the
  last component of the result tells whether the stripe was submitted.
\<close>

definition decodeBufferStep ::
  "DencodeContext \<Rightarrow> nat \<Rightarrow> rstream \<Rightarrow> exn + (DencodeContext \<times> rstream \<times> bool)" where
  "decodeBufferStep c istreamId inp =
     (if wait c then Inr (c, inp, False)
      else if waiting c AND lane_bit istreamId = 0 then Inr (c, inp, False)
      else case fillStripeBuffers c istreamId inp of
        Inl e \<Rightarrow> Inl e
      | Inr (c1, inp', filled) \<Rightarrow>
          if \<not> filled then Inr (c1, inp', False)
          else (let c2 = addedToStripe (lane_bit istreamId) c1
                in if readyForEncoding c2
                   then (case ref c2 of
                           Inl e \<Rightarrow> Inl e
                         | Inr c3 \<Rightarrow>
                             (case ctx_encode c3 of
                                Inl e \<Rightarrow> Inl e
                              | Inr c4 \<Rightarrow> Inr (c4, inp', True)))
                   else Inr (c2, inp', False)))"

text \<open>
  \<^verbatim>\<open>decodeDispatchStep\<close>: the context after the synchronous part, and the counter
  \<^verbatim>\<open>nPending\<close> of callbacks still to come.
\<close>

definition decodeDispatchStep ::
  "DencodeContext \<Rightarrow> js_error option \<Rightarrow> bool list \<Rightarrow> exn + (DencodeContext \<times> nat)" where
  "decodeDispatchStep c err oks =
     (case err of
        Some e \<Rightarrow> Inr (unref (error e c), 0)
      | None \<Rightarrow>
          (let toPush =
                 (if Some (processedStripe c + 1) = nStripe c
                  then (let pushedBytes = processedStripe c * stripeSize c * ctx_k c;
                            leftover = int (ctx_size c) - int pushedBytes
                        in buf_slice (dataBuffer c) 0 leftover)
                  else dataBuffer c)
           in case write_lanes (\<lambda>_. True) (\<lambda>_. toPush) (map Some (filteredOstreams c)) 0 oks of
                Inl e \<Rightarrow> Inl e
              | Inr (ws, n) \<Rightarrow> Inr (c\<lparr>trace := trace c @ ws\<rparr>, n)))"

section \<open>The repair driver\<close>

definition repairDispatchStep ::
  "DencodeContext \<Rightarrow> js_error option \<Rightarrow> bool list \<Rightarrow> exn + (DencodeContext \<times> nat)" where
  "repairDispatchStep c err oks =
     (case err of
        Some e \<Rightarrow> Inr (unref (error e c), 0)
      | None \<Rightarrow>
          (case write_lanes (\<lambda>i. targets c AND lane_bit i \<noteq> 0) (lane_slice c) (ostreams c) 0 oks of
             Inl e \<Rightarrow> Inl e
           | Inr (ws, n) \<Rightarrow> Inr (c\<lparr>trace := trace c @ ws\<rparr>, n)))"

section \<open>The encode driver\<close>

text \<open>\<^verbatim>\<open>encodeDispatchStep\<close> (\<^verbatim>\<open>lib/encode.js\<close>).\<close>

definition encodeDispatchStep ::
  "DencodeContext \<Rightarrow> js_error option \<Rightarrow> bool list \<Rightarrow> exn + (DencodeContext \<times> nat)" where
  "encodeDispatchStep c err oks =
     (case err of
        Some e \<Rightarrow> Inr (unref (error e c), 0)
      | None \<Rightarrow>
          (case write_lanes (\<lambda>_. True) (lane_slice c) (ostreams c) 0 oks of
             Inl e \<Rightarrow> Inl e
           | Inr (ws, n) \<Rightarrow> Inr (c\<lparr>trace := trace c @ ws\<rparr>, n)))"

text \<open>\<^verbatim>\<open>encodeBufferStep\<close>.\<close>

definition encodeBufferStep ::
  "DencodeContext \<Rightarrow> nat \<Rightarrow> rstream \<Rightarrow> exn + (DencodeContext \<times> rstream \<times> bool)" where
  "encodeBufferStep c istreamId inp =
     (if wait c then Inr (c, inp, False)
      else
        (let lastStripe = (Some (processedStripe c + 1) = nStripe c);
             toRead = (if lastStripe
                       then int (ctx_size c) - int (processedStripe c * data_size c)
                       else int (data_size c))
         in if lane (istreams c) istreamId = None then Inl TypeError
            else
              (let (rd, inp') = stream_read toRead inp;
                   c1 = c\<lparr>trace := trace c @ [Read istreamId toRead]\<rparr>
               in case rd of
                    None \<Rightarrow> Inr (c1, inp', False)
                  | Some dataBytes \<Rightarrow>
                      (let c2 = (if length dataBytes < data_size c1
                                 then c1\<lparr>dataBuffer :=
                                        buf_fill0 (fst (buf_copy dataBytes (dataBuffer c1) 0))
                                          (length dataBytes)\<rparr>
                                 else c1\<lparr>dataBuffer := dataBytes\<rparr>);
                           c3 = addedToStripe (sources c2) c2
                       in case ref c3 of
                            Inl e \<Rightarrow> Inl e
                          | Inr c4 \<Rightarrow>
                              (case ctx_encode c4 of
                                 Inl e \<Rightarrow> Inl e
                               | Inr c5 \<Rightarrow> Inr (c5, inp', True))))))"


section \<open>The three operations and their event loop\<close>

text \<open>Decimal rendering of a number in a template string.\<close>

definition digit :: "nat \<Rightarrow> char" where
  "digit n = ''0123456789'' ! n"

function show_nat :: "nat \<Rightarrow> string" where
  "show_nat n = (if n < 10 then [digit n] else show_nat (n div 10) @ [digit (n mod 10)])"
  by pat_completeness auto
termination
  by (relation "measure id") auto

declare show_nat.simps [simp del]

definition insufficient :: "nat \<Rightarrow> nat \<Rightarrow> js_error" where
  "insufficient available k =
     Error (''Not enough parts for decoding: '' @ show_nat available @ '' < '' @ show_nat k)"

datatype op_kind = Encode | Decode | Repair

text \<open>
  An operation in progress: its context, the input lanes that have a
  \<^verbatim>\<open>'readable'\<close> listener, the input lanes whose one-shot \<^verbatim>\<open>'error'\<close> listener has not
  fired, the number of calls of the coding primitive (or of its deferred
  replacement) that have not completed, the counter \<^verbatim>\<open>nPending\<close> of the current
  dispatch step, and whether repair has scheduled its deferred \<^verbatim>\<open>unref\<close>.
\<close>

record op_state =
  ctx :: DencodeContext
  kind :: op_kind
  readers :: "nat list"
  errorListeners :: "nat list"
  outstanding :: nat
  nPending :: nat
  unrefScheduled :: bool

text \<open>
  The loop \<^verbatim>\<open>istreams.forEach((s, i) => ...)\<close> that ends \<^verbatim>\<open>decode\<close> and \<^verbatim>\<open>repair\<close>: an
  unused lane is resumed if present; a source lane is paused and gets its
  listeners.
\<close>

fun attach_inputs :: "mask \<Rightarrow> stream option list \<Rightarrow> nat \<Rightarrow> exn + (call list \<times> nat list)" where
  "attach_inputs src [] i = Inr ([], [])"
| "attach_inputs src (s # ss) i =
     (if src AND lane_bit i = 0
      then (case attach_inputs src ss (i + 1) of
              Inl e \<Rightarrow> Inl e
            | Inr (cs, rs) \<Rightarrow> Inr ((case s of None \<Rightarrow> [] | Some h \<Rightarrow> [Resume h]) @ cs, rs))
      else (case s of
              None \<Rightarrow> Inl TypeError
            | Some h \<Rightarrow>
                (case attach_inputs src ss (i + 1) of
                   Inl e \<Rightarrow> Inl e
                 | Inr (cs, rs) \<Rightarrow> Inr (Pause h # cs, i # rs))))"

declare attach_inputs.simps [simp del]

definition start_op :: "op_kind \<Rightarrow> DencodeContext \<Rightarrow> nat list \<Rightarrow> op_state" where
  "start_op kd c rs =
     \<lparr>ctx = c, kind = kd, readers = rs, errorListeners = rs, outstanding = 0, nPending = 0,
      unrefScheduled = False\<rparr>"

text \<open>\<^verbatim>\<open>decode(ostream, size, dataStreams, parityStreams, stripeSize)\<close>.\<close>

definition decode ::
  "stream option \<Rightarrow> nat \<Rightarrow> stream option list \<Rightarrow> stream option list \<Rightarrow> nat \<Rightarrow> (nat \<Rightarrow> byte)
    \<Rightarrow> exn + op_state" where
  "decode ostream sz dataStreams parityStreams hint j =
     (let k = length dataStreams;
          m = length parityStreams;
          istrs = dataStreams @ parityStreams;
          (src, tgt, available) = decode_getPartRoles dataStreams parityStreams
      in case new_DencodeContext k m istrs [ostream] sz src tgt hint j of
           Inl e \<Rightarrow> Inl e
         | Inr c \<Rightarrow>
             if available < k then Inr (start_op Decode (error (insufficient available k) c) [])
             else (case attach_inputs src istrs 0 of
                     Inl e \<Rightarrow> Inl e
                   | Inr (cs, rs) \<Rightarrow> Inr (start_op Decode (c\<lparr>trace := trace c @ cs\<rparr>) rs)))"

text \<open>\<^verbatim>\<open>repair(k, m, istreams, ostreams, size, stripeSize)\<close>.\<close>

definition repair ::
  "nat \<Rightarrow> nat \<Rightarrow> stream option list \<Rightarrow> stream option list \<Rightarrow> nat \<Rightarrow> nat \<Rightarrow> (nat \<Rightarrow> byte)
    \<Rightarrow> exn + op_state" where
  "repair k m istrs ostrs sz hint j =
     (if k + m \<noteq> length istrs \<or> k + m \<noteq> length ostrs then Inl AssertionError
      else
        (let (src, tgt, available) = repair_getPartRoles k m istrs ostrs
         in case new_DencodeContext k m istrs ostrs sz src tgt hint j of
              Inl e \<Rightarrow> Inl e
            | Inr c \<Rightarrow>
                if available < k then Inr (start_op Repair (error (insufficient available k) c) [])
                else (case attach_inputs src istrs 0 of
                        Inl e \<Rightarrow> Inl e
                      | Inr (cs, rs) \<Rightarrow> Inr (start_op Repair (c\<lparr>trace := trace c @ cs\<rparr>) rs))))"


text \<open>
  What the event loop can deliver to an operation: a \<^verbatim>\<open>'readable'\<close> (for encode
  also the \<^verbatim>\<open>'end'\<close>) of an input lane, with the state of that stream; an
  \<^verbatim>\<open>'error'\<close> of an input lane; the completion of the coding primitive, with its
  error if any, the content it left in the two buffers, and what the writes of
  the dispatch step return; one callback of a write (its completion or
  \<^verbatim>\<open>'drain'\<close>); and the immediate that repair schedules.
\<close>

datatype event =
    Readable nat rstream
  | InputError nat js_error
  | PrimitiveDone "js_error option" bytes bytes "bool list"
  | WriteDone
  | Immediate

definition dispatch ::
  "op_kind \<Rightarrow> DencodeContext \<Rightarrow> js_error option \<Rightarrow> bool list \<Rightarrow> exn + (DencodeContext \<times> nat)" where
  "dispatch kd c err oks =
     (case kd of
        Encode \<Rightarrow> encodeDispatchStep c err oks
      | Decode \<Rightarrow> decodeDispatchStep c err oks
      | Repair \<Rightarrow> repairDispatchStep c err oks)"

text \<open>
  One handler run. An event that cannot occur in the state (a completion with
  nothing outstanding, a primitive that changed the length of a buffer, an
  event on a lane without listener) leaves the state as it is.
\<close>

definition step :: "event \<Rightarrow> op_state \<Rightarrow> exn + op_state" where
  "step ev st =
     (case ev of
        Readable i inp \<Rightarrow>
          if i \<notin> set (readers st) then Inr st
          else (case (if kind st = Encode then encodeBufferStep (ctx st) i inp
                      else decodeBufferStep (ctx st) i inp) of
                  Inl e \<Rightarrow> Inl e
                | Inr (c, _, submitted) \<Rightarrow>
                    Inr (st\<lparr>ctx := c,
                           outstanding := outstanding st + (if submitted then 1 else 0)\<rparr>))
      | InputError i err \<Rightarrow>
          if i \<notin> set (errorListeners st) then Inr st
          else Inr (st\<lparr>ctx := error err (ctx st),
                      errorListeners := removeAll i (errorListeners st)\<rparr>)
      | PrimitiveDone err d p oks \<Rightarrow>
          if outstanding st = 0 \<or> length d \<noteq> length (dataBuffer (ctx st))
             \<or> length p \<noteq> length (parityBuffer (ctx st))
          then Inr st
          else (let c = ctx st;
                    bypass = (targets c = 0);
                    c1 = (if bypass then c else c\<lparr>dataBuffer := d, parityBuffer := p\<rparr>);
                    err1 = (if bypass then None else err)
                in case dispatch (kind st) c1 err1 oks of
                     Inl e \<Rightarrow> Inl e
                   | Inr (c2, n) \<Rightarrow>
                       Inr (st\<lparr>ctx := c2, outstanding := outstanding st - 1, nPending := n\<rparr>))
      | WriteDone \<Rightarrow>
          if nPending st = 0 then Inr st
          else if nPending st = 1
          then (if kind st = Repair then Inr (st\<lparr>nPending := 0, unrefScheduled := True\<rparr>)
                else Inr (st\<lparr>nPending := 0, ctx := unref (ctx st)\<rparr>))
          else Inr (st\<lparr>nPending := nPending st - 1\<rparr>)
      | Immediate \<Rightarrow>
          if unrefScheduled st
          then Inr (st\<lparr>unrefScheduled := False, ctx := unref (ctx st)\<rparr>)
          else Inr st)"

fun run :: "event list \<Rightarrow> op_state \<Rightarrow> exn + op_state" where
  "run [] st = Inr st"
| "run (ev # evs) st = (case step ev st of Inl e \<Rightarrow> Inl e | Inr st' \<Rightarrow> run evs st')"


section \<open>Invariants used in the proofs\<close>





section \<open>Properties of the stripe size\<close>

lemma ceiling_div8: "\<lceil>real hint / 8\<rceil> = int ((hint + 7) div 8)"
proof -
  have "\<lceil>real hint / 8\<rceil> = \<lceil>(of_int (int hint) :: real) / of_int 8\<rceil>"
    by simp
  also have "\<dots> = - ((- int hint) div 8)"
    by (rule ceiling_divide_eq_div)
  also have "\<dots> = int ((hint + 7) div 8)"
    by (simp add: zdiv_int)
  finally show ?thesis .
qed

lemma floor_nat_div: "\<lfloor>real a / real b\<rfloor> = int (a div b)"
  by (simp add: floor_divide_of_nat_eq)

lemma floor_nat_div8: "\<lfloor>real a / 8\<rfloor> = int (a div 8)"
  using floor_nat_div [of a 8] by simp

lemma safeStripeSize_refines:
  assumes "0 < k" "0 < m"
  shows "int (safeStripeSize k m hint) = safeStripeSize_spec k m hint"
  using assms unfolding safeStripeSize_def safeStripeSize_spec_def Let_def
  by (simp add: ceiling_div8 floor_nat_div floor_nat_div8)

lemma safeStripeSize_dvd: "8 dvd safeStripeSize k m hint"
  unfolding safeStripeSize_def Let_def min_def by simp

lemma safeStripeSize_ceiling:
  assumes "0 < k" "0 < m"
  shows "max k m * safeStripeSize k m hint \<le> MAX_HWM"
proof -
  let ?l = "max k m"
  have "safeStripeSize k m hint \<le> (MAX_HWM div ?l div 8) * 8"
    using assms unfolding safeStripeSize_def Let_def by simp
  also have "\<dots> \<le> MAX_HWM div ?l"
    by simp
  finally have "?l * safeStripeSize k m hint \<le> ?l * (MAX_HWM div ?l)"
    by (rule mult_le_mono2)
  also have "\<dots> \<le> MAX_HWM"
    by simp
  finally show ?thesis .
qed

lemma safeStripeSize_small:
  assumes "0 < k" "0 < m" "8 dvd hint" "hint \<le> (MAX_HWM div max k m div 8) * 8"
  shows "safeStripeSize k m hint = hint"
proof -
  have "((hint + 7) div 8) * 8 = hint"
    using assms(3) by (auto elim!: dvdE)
  then show ?thesis
    using assms unfolding safeStripeSize_def Let_def by simp
qed

lemma safeStripeSize_24_6: "safeStripeSize 24 6 8388608 = 349520"
  by (simp add: MAX_HWM_def safeStripeSize_def)

lemma safeStripeSize_spec_24_6: "safeStripeSize_spec 24 6 8388608 = 349520"
  by (simp add: MAX_HWM_def safeStripeSize_spec_def)

lemma safeStripeSize_4_2: "safeStripeSize 4 2 1024 = 1024"
  by (simp add: MAX_HWM_def safeStripeSize_def)

text \<open>
  Claim C8. For positive \<open>k\<close> and \<open>m\<close> and every hint, \<open>safeStripeSize\<close> (a total
  function of its three arguments) returns a multiple of 8, keeps
  \<open>max k m * S\<close> within \<open>MAX_HWM\<close>, equals
  \<open>min (ceil (hint / 8) * 8) (floor (floor (MAX_HWM / max k m) / 8) * 8)\<close> computed
  over the reals, and returns the hint itself when the hint is a multiple of 8
  not above the aligned ceiling.
\<close>

theorem safeStripeSize_geometry:
  assumes "0 < k" "0 < m"
  shows "8 dvd safeStripeSize k m hint
    \<and> max k m * safeStripeSize k m hint \<le> MAX_HWM
    \<and> int (safeStripeSize k m hint) = safeStripeSize_spec k m hint
    \<and> (8 dvd hint \<and> hint \<le> (MAX_HWM div max k m div 8) * 8
         \<longrightarrow> safeStripeSize k m hint = hint)"
  using assms
  by (simp add: safeStripeSize_dvd safeStripeSize_ceiling safeStripeSize_refines
      safeStripeSize_small)

theorem safeStripeSize_geometry_witness:
  "safeStripeSize 24 6 8388608 = 349520 \<and> 8 dvd (349520::nat)
   \<and> max 24 6 * (349520::nat) \<le> MAX_HWM
   \<and> safeStripeSize_spec 24 6 8388608 = 349520
   \<and> safeStripeSize 4 2 1024 = 1024"
proof -
  have pos: "(0::nat) < 24" "(0::nat) < 6" "(0::nat) < 4" "(0::nat) < 2"
    by simp_all
  note big = safeStripeSize_geometry [OF pos(1) pos(2), of 8388608]
  note small = safeStripeSize_geometry [OF pos(3) pos(4), of 1024]
  show ?thesis
    using big small safeStripeSize_24_6 safeStripeSize_spec_24_6 safeStripeSize_4_2
    by (simp add: MAX_HWM_def)
qed


section \<open>Properties of the role selection\<close>


















section \<open>Properties of the context\<close>

lemma init_DencodeContext_fields [simp]:
  "ctx_k (init_DencodeContext k m is os sz src tgt S j) = k"
  "ctx_m (init_DencodeContext k m is os sz src tgt S j) = m"
  "stripeSize (init_DencodeContext k m is os sz src tgt S j) = S"
  "ctx_size (init_DencodeContext k m is os sz src tgt S j) = sz"
  "data_size (init_DencodeContext k m is os sz src tgt S j) = S * k"
  "parity_size (init_DencodeContext k m is os sz src tgt S j) = S * m"
  "istreams (init_DencodeContext k m is os sz src tgt S j) = is"
  "filteredIstreams (init_DencodeContext k m is os sz src tgt S j) = filter_streams is"
  "ostreams (init_DencodeContext k m is os sz src tgt S j) = os"
  "filteredOstreams (init_DencodeContext k m is os sz src tgt S j) = filter_streams os"
  "sources (init_DencodeContext k m is os sz src tgt S j) = src"
  "targets (init_DencodeContext k m is os sz src tgt S j) = tgt"
  "inFlight (init_DencodeContext k m is os sz src tgt S j) = False"
  "processedStripe (init_DencodeContext k m is os sz src tgt S j) = 0"
  "nStripe (init_DencodeContext k m is os sz src tgt S j) =
     (if k * S = 0 then None else Some ((sz + k * S - 1) div (k * S)))"
  "waiting (init_DencodeContext k m is os sz src tgt S j) = src"
  "dataBuffer (init_DencodeContext k m is os sz src tgt S j) = allocUnsafe j (S * k)"
  "parityBuffer (init_DencodeContext k m is os sz src tgt S j) = allocUnsafe j (S * m)"
  "inputError (init_DencodeContext k m is os sz src tgt S j) = None"
  "trace (init_DencodeContext k m is os sz src tgt S j) = []"
  "junk (init_DencodeContext k m is os sz src tgt S j) = j"
  by (simp_all add: init_DencodeContext_def newStripe_def)


lemma length_allocUnsafe [simp]: "length (allocUnsafe j n) = n"
  by (simp add: allocUnsafe_def)

lemma start_op_simps [simp]:
  "ctx (start_op kd c rs) = c" "kind (start_op kd c rs) = kd" "readers (start_op kd c rs) = rs"
  "errorListeners (start_op kd c rs) = rs" "outstanding (start_op kd c rs) = 0"
  "nPending (start_op kd c rs) = 0" "unrefScheduled (start_op kd c rs) = False"
  by (simp_all add: start_op_def)

lemma error_fields [simp]:
  "ctx_k (error e c) = ctx_k c" "ctx_m (error e c) = ctx_m c"
  "stripeSize (error e c) = stripeSize c" "ctx_size (error e c) = ctx_size c"
  "data_size (error e c) = data_size c" "parity_size (error e c) = parity_size c"
  "istreams (error e c) = istreams c" "filteredIstreams (error e c) = filteredIstreams c"
  "ostreams (error e c) = ostreams c" "filteredOstreams (error e c) = filteredOstreams c"
  "sources (error e c) = sources c" "targets (error e c) = targets c"
  "inFlight (error e c) = inFlight c" "processedStripe (error e c) = processedStripe c"
  "nStripe (error e c) = nStripe c" "waiting (error e c) = waiting c"
  "dataBuffer (error e c) = dataBuffer c" "parityBuffer (error e c) = parityBuffer c"
  "junk (error e c) = junk c"
  by (simp_all add: error_def)





lemma unref_fields [simp]:
  "ctx_k (unref c) = ctx_k c" "ctx_m (unref c) = ctx_m c"
  "stripeSize (unref c) = stripeSize c" "ctx_size (unref c) = ctx_size c"
  "data_size (unref c) = data_size c" "parity_size (unref c) = parity_size c"
  "istreams (unref c) = istreams c" "filteredIstreams (unref c) = filteredIstreams c"
  "ostreams (unref c) = ostreams c" "filteredOstreams (unref c) = filteredOstreams c"
  "sources (unref c) = sources c" "targets (unref c) = targets c"
  "inFlight (unref c) = False" "processedStripe (unref c) = processedStripe c + 1"
  "nStripe (unref c) = nStripe c" "inputError (unref c) = inputError c"
  "junk (unref c) = junk c"
  by (simp_all add: unref_def newStripe_def Let_def)








section \<open>Properties of the three operations\<close>







subsection \<open>What the operations return\<close>

lemma decode_insufficient:
  assumes "0 < length ds" "length ds \<le> MAX_K" "0 < length ps" "length ps \<le> MAX_M"
    and "decode_getPartRoles ds ps = (src, tgt, av)" "av < length ds"
  shows "decode out sz ds ps hint j =
     Inr (start_op Decode
       (error (insufficient av (length ds))
          (init_DencodeContext (length ds) (length ps) (ds @ ps) [out] sz src tgt
             (safeStripeSize (length ds) (length ps) hint) j)) [])"
  using assms by (simp add: decode_def new_DencodeContext_def getECContext_def Let_def)


lemma repair_insufficient:
  assumes "0 < k" "k \<le> MAX_K" "0 < m" "m \<le> MAX_M"
    and "k + m = length is" "k + m = length os"
    and "repair_getPartRoles k m is os = (src, tgt, av)" "av < k"
  shows "repair k m is os sz hint j =
     Inr (start_op Repair
       (error (insufficient av k)
          (init_DencodeContext k m is os sz src tgt (safeStripeSize k m hint) j)) [])"
  using assms by (simp add: repair_def new_DencodeContext_def getECContext_def Let_def)








subsection \<open>Role bitfields of a running operation\<close>




subsection \<open>Examples of role selection\<close>










end
